theory Spec2Isabelle
  imports Main "HOL-Library.Multiset" "HOL-Library.Word"
begin

section \<open>clang-tidy runner (\<open>src/clang-tidy/run.py\<close>): exit-code merge\<close>

text \<open>
  Python integers are unbounded, so exit codes are \<open>int\<close>. The built-ins \<open>min(a, b)\<close>
  and \<open>max(a, b)\<close> keep their first argument unless the second is strictly smaller
  (strictly larger); they are written out as the interpreter evaluates them.
\<close>

definition py_min :: "int \<Rightarrow> int \<Rightarrow> int" where
  "py_min a b = (if b < a then b else a)"

definition py_max :: "int \<Rightarrow> int \<Rightarrow> int" where
  "py_max a b = (if b > a then b else a)"

definition worst_exit_code :: "int \<Rightarrow> int \<Rightarrow> int" where
  "worst_exit_code worst cur =
     (if cur < 0 then py_min worst cur
      else if worst < 0 then worst
      else py_max worst cur)"

section \<open>Strings, bytes and decoding\<close>

text \<open>
  A Python \<open>str\<close> is a sequence of Unicode code points, a \<open>bytes\<close> object a sequence
  of octets. \<open>py_str\<close> writes an ASCII literal of the source as a \<open>str\<close>.
\<close>

type_synonym pystr = "nat list"
type_synonym byte = "8 word"

datatype error = OSError | UnicodeDecodeError | ValueError | TypeError

definition py_str :: "string \<Rightarrow> pystr" where
  "py_str cs = map of_char cs"

text \<open>\<open>sep.join(parts)\<close>.\<close>

fun py_join :: "pystr \<Rightarrow> pystr list \<Rightarrow> pystr" where
  "py_join sep [] = []"
| "py_join sep [x] = x"
| "py_join sep (x # y # ys) = x @ sep @ py_join sep (y # ys)"

text \<open>\<open>s.endswith(suffix)\<close>.\<close>

definition endswith :: "pystr \<Rightarrow> pystr \<Rightarrow> bool" where
  "endswith s suffix =
     (length suffix \<le> length s \<and> drop (length s - length suffix) s = suffix)"

text \<open>
  \<open>bytes.decode("utf-8")\<close> with the default strict error handler: the well-formed
  byte sequences of UTF-8 (no overlong forms, no surrogates, nothing above U+10FFFF);
  anything else raises \<open>UnicodeDecodeError\<close>.
\<close>

definition seq_len :: "byte \<Rightarrow> nat" where
  "seq_len b =
     (if b < 0x80 then 1
      else if 0xC2 \<le> b \<and> b \<le> 0xDF then 2
      else if 0xE0 \<le> b \<and> b \<le> 0xEF then 3
      else if 0xF0 \<le> b \<and> b \<le> 0xF4 then 4
      else 0)"

definition continuation :: "byte \<Rightarrow> bool" where
  "continuation b = (0x80 \<le> b \<and> b \<le> 0xBF)"

definition second_lo :: "byte \<Rightarrow> byte" where
  "second_lo b = (if b = 0xE0 then 0xA0 else if b = 0xF0 then 0x90 else 0x80)"

definition second_hi :: "byte \<Rightarrow> byte" where
  "second_hi b = (if b = 0xED then 0x9F else if b = 0xF4 then 0x8F else 0xBF)"

definition valid_tail :: "byte \<Rightarrow> byte list \<Rightarrow> bool" where
  "valid_tail b rest =
     (case rest of
        [] \<Rightarrow> True
      | t # ts \<Rightarrow> second_lo b \<le> t \<and> t \<le> second_hi b \<and> list_all continuation ts)"

definition lead_bits :: "byte \<Rightarrow> nat" where
  "lead_bits b =
     (if seq_len b = 2 then unat b mod 32
      else if seq_len b = 3 then unat b mod 16
      else if seq_len b = 4 then unat b mod 8
      else unat b)"

definition code_point :: "byte \<Rightarrow> byte list \<Rightarrow> nat" where
  "code_point b rest = foldl (\<lambda>acc t. acc * 64 + unat t mod 64) (lead_bits b) rest"

fun decode_utf8 :: "byte list \<Rightarrow> error + pystr" where
  "decode_utf8 [] = Inr []"
| "decode_utf8 (b # bs) =
     (if seq_len b = 0 \<or> length bs < seq_len b - 1
         \<or> \<not> valid_tail b (take (seq_len b - 1) bs)
      then Inl UnicodeDecodeError
      else (case decode_utf8 (drop (seq_len b - 1) bs) of
              Inl e \<Rightarrow> Inl e
            | Inr cps \<Rightarrow> Inr (code_point b (take (seq_len b - 1) bs) # cps)))"

section \<open>The operating system as seen by the runner\<close>

text \<open>
  What a launched child does is not decided by the runner. A \<open>world\<close> gives it: for a
  command launched after \<open>n\<close> successful launches, either the launch fails
  (\<open>subprocess.Popen\<close> raises \<open>OSError\<close>) or the child runs and has an \<open>outcome\<close>:
  the bytes it writes to its stdout and stderr, its exit status, and its \<open>delay\<close>,
  the number of times \<open>Popen.poll()\<close> still answers \<open>None\<close> before it sees the child
  terminated (\<open>None\<close>: the child never terminates). Every sequence of poll answers a child
  can give is the sequence of some delay.

  \<open>sys\<close> records the effects of a run: the texts given to \<open>print\<close> on the standard
  output and on the diagnostic stream, one entry per call; the commands launched, in
  launch order; and the number of calls of \<open>time.sleep\<close>.
\<close>

record outcome =
  out_bytes :: "byte list"
  exit_status :: int
  delay :: "nat option"

datatype launch = Fails | Runs outcome

type_synonym world = "nat \<Rightarrow> pystr list \<Rightarrow> launch"

record sys =
  stdout :: "pystr list"
  stderr :: "pystr list"
  launched :: "pystr list list"
  sleeps :: nat

text \<open>
  The temporary file behind a handle. The child writes through its own descriptor; the
  runner reads the file only after \<open>wait()\<close> has returned, so the file holds from the
  start the bytes the child has written by then, with the shared offset at their end.
  Every operation on a closed file raises \<open>ValueError\<close>.
\<close>

record tempfile =
  tf_data :: "byte list"
  tf_pos :: nat
  tf_closed :: bool

definition tf_seek :: "nat \<Rightarrow> tempfile \<Rightarrow> error + tempfile" where
  "tf_seek n f = (if tf_closed f then Inl ValueError else Inr (f\<lparr>tf_pos := n\<rparr>))"

definition tf_read :: "tempfile \<Rightarrow> error + byte list \<times> tempfile" where
  "tf_read f =
     (if tf_closed f then Inl ValueError
      else Inr (drop (tf_pos f) (tf_data f), f\<lparr>tf_pos := max (tf_pos f) (length (tf_data f))\<rparr>))"

definition tf_close :: "tempfile \<Rightarrow> tempfile" where
  "tf_close f = f\<lparr>tf_closed := True\<rparr>"

text \<open>
  A \<open>subprocess.Popen\<close> object: \<open>returncode\<close> is \<open>None\<close> until \<open>poll()\<close> or \<open>wait()\<close> has
  seen the child terminated. \<open>wait()\<close> on a child that never terminates does not return,
  which is the value \<open>None\<close> of the model.
\<close>

record popen =
  returncode :: "int option"
  status :: int
  remaining :: "nat option"

definition Popen_poll :: "popen \<Rightarrow> int option \<times> popen" where
  "Popen_poll p =
     (case returncode p of
        Some c \<Rightarrow> (Some c, p)
      | None \<Rightarrow>
          (case remaining p of
             None \<Rightarrow> (None, p)
           | Some 0 \<Rightarrow> (Some (status p), p\<lparr>returncode := Some (status p)\<rparr>)
           | Some (Suc n) \<Rightarrow> (None, p\<lparr>remaining := Some n\<rparr>)))"

definition Popen_wait :: "popen \<Rightarrow> popen option" where
  "Popen_wait p =
     (case returncode p of
        Some c \<Rightarrow> Some p
      | None \<Rightarrow>
          (case remaining p of
             None \<Rightarrow> None
           | Some n \<Rightarrow> Some (p\<lparr>returncode := Some (status p), remaining := Some 0\<rparr>)))"

section \<open>Process and Invocation\<close>

text \<open>
  \<open>class Process\<close>. The \<open>pid\<close> is the number of the launch; it stands for the identity
  of the object, which \<open>pending.remove(proc)\<close> compares. Results are
  \<open>(error + 'a) option\<close>: \<open>None\<close> when the call never returns, \<open>Some (Inl e)\<close> when it
  raises \<open>e\<close>, \<open>Some (Inr v)\<close> when it returns \<open>v\<close>. A call that raises gives the
  error alone: the effects up to the raise are not part of the result.
\<close>

record process =
  pid :: nat
  proc :: popen
  outfile :: tempfile
  "output" :: "pystr option"

record invocation =
  command :: "pystr list"

definition Process_poll :: "process \<Rightarrow> int option \<times> process" where
  "Process_poll p = (case Popen_poll (proc p) of (r, q) \<Rightarrow> (r, p\<lparr>proc := q\<rparr>))"

definition Process_returncode :: "process \<Rightarrow> int option" where
  "Process_returncode p = returncode (proc p)"

text \<open>
  \<open>get_output\<close>. The guard \<open>not self.output\<close> is true for \<open>None\<close> and for the empty
  string, so only a cached text that is not empty is returned at once.
\<close>

definition get_output :: "process \<Rightarrow> (error + pystr \<times> process) option" where
  "get_output p =
     (case output p of
        Some (c # cs) \<Rightarrow> Some (Inr (c # cs, p))
      | _ \<Rightarrow>
          (case Popen_wait (proc p) of
             None \<Rightarrow> None
           | Some q \<Rightarrow>
               (case tf_seek 0 (outfile p) of
                  Inl e \<Rightarrow> Some (Inl e)
                | Inr f1 \<Rightarrow>
                    (case tf_read f1 of
                       Inl e \<Rightarrow> Some (Inl e)
                     | Inr (bs, f2) \<Rightarrow>
                         (case decode_utf8 bs of
                            Inl e \<Rightarrow> Some (Inl e)
                          | Inr txt \<Rightarrow>
                              Some (Inr (txt, p\<lparr>proc := q, outfile := tf_close f2,
                                                 output := Some txt\<rparr>)))))))"

definition Process_start :: "world \<Rightarrow> invocation \<Rightarrow> sys \<Rightarrow> error + process \<times> sys" where
  "Process_start w invocation s =
     (case w (length (launched s)) (command invocation) of
        Fails \<Rightarrow> Inl OSError
      | Runs oc \<Rightarrow>
          (let outfile = \<lparr>tf_data = out_bytes oc, tf_pos = length (out_bytes oc),
                          tf_closed = False\<rparr>;
               process = \<lparr>returncode = None, status = exit_status oc, remaining = delay oc\<rparr>;
               process' = snd (Popen_poll process)
           in Inr (\<lparr>pid = length (launched s), proc = process', outfile = outfile,
                     output = None\<rparr>,
                   s\<lparr>launched := launched s @ [command invocation]\<rparr>)))"

definition Invocation_str :: "invocation \<Rightarrow> pystr" where
  "Invocation_str self = py_join (py_str '' '') (command self)"

definition get_command :: "pystr \<Rightarrow> pystr \<Rightarrow> invocation" where
  "get_command tidy_executable file_path = \<lparr>command = [tidy_executable, file_path]\<rparr>"

definition Invocation_start :: "world \<Rightarrow> bool \<Rightarrow> invocation \<Rightarrow> sys \<Rightarrow> error + process \<times> sys" where
  "Invocation_start w verbose self s =
     Process_start w self
       (if verbose then s\<lparr>stderr := stderr s @ [py_str ''# '' @ Invocation_str self]\<rparr> else s)"

section \<open>The executor\<close>

text \<open>Python slices \<open>xs[:n]\<close> and \<open>xs[n:]\<close>; a negative bound counts from the end.\<close>

definition slice_to :: "'a list \<Rightarrow> int \<Rightarrow> 'a list" where
  "slice_to xs n = (if 0 \<le> n then take (nat n) xs else take (nat (int (length xs) + n)) xs)"

definition slice_from :: "'a list \<Rightarrow> int \<Rightarrow> 'a list" where
  "slice_from xs n = (if 0 \<le> n then drop (nat n) xs else drop (nat (int (length xs) + n)) xs)"

definition print :: "pystr \<Rightarrow> sys \<Rightarrow> sys" where
  "print txt s = s\<lparr>stdout := stdout s @ [txt]\<rparr>"

definition sleep :: "sys \<Rightarrow> sys" where
  "sleep s = s\<lparr>sleeps := Suc (sleeps s)\<rparr>"

text \<open>
  The branch \<open>jobs == 1\<close> of \<open>execute\<close>: the \<open>for\<close> loop over the invocations, with the
  running \<open>exit_code\<close>. \<open>worst_exit_code\<close> compares its arguments with \<open>0\<close>, which raises
  \<open>TypeError\<close> on a \<open>returncode\<close> that is still \<open>None\<close>.
\<close>

fun execute_sequential ::
  "world \<Rightarrow> bool \<Rightarrow> invocation list \<Rightarrow> int \<Rightarrow> sys \<Rightarrow> (error + int \<times> sys) option" where
  "execute_sequential w verbose [] exit_code s = Some (Inr (exit_code, s))"
| "execute_sequential w verbose (invocation # rest) exit_code s =
     (case Invocation_start w verbose invocation s of
        Inl e \<Rightarrow> Some (Inl e)
      | Inr (p, s1) \<Rightarrow>
          (case get_output p of
             None \<Rightarrow> None
           | Some (Inl e) \<Rightarrow> Some (Inl e)
           | Some (Inr (txt, p')) \<Rightarrow>
               (case Process_returncode p' of
                  None \<Rightarrow> Some (Inl TypeError)
                | Some rc \<Rightarrow>
                    execute_sequential w verbose rest (worst_exit_code exit_code rc)
                      (print txt s1))))"

text \<open>
  The loop over \<open>complete\<close>: \<open>pending.remove(proc)\<close> raises \<open>ValueError\<close> when the
  handle is not in the list, and removes its first occurrence otherwise.
\<close>

fun drain ::
  "process list \<Rightarrow> process list \<Rightarrow> int \<Rightarrow> sys \<Rightarrow> (error + process list \<times> int \<times> sys) option" where
  "drain [] pending exit_code s = Some (Inr (pending, exit_code, s))"
| "drain (p # complete) pending exit_code s =
     (if p \<notin> set pending then Some (Inl ValueError)
      else (case get_output p of
              None \<Rightarrow> None
            | Some (Inl e) \<Rightarrow> Some (Inl e)
            | Some (Inr (txt, p')) \<Rightarrow>
                (case Process_returncode p' of
                   None \<Rightarrow> Some (Inl TypeError)
                 | Some rc \<Rightarrow>
                     drain complete (remove1 p pending) (worst_exit_code exit_code rc)
                       (print txt s))))"

text \<open>The generator \<open>i.start(verbose) for i in invocations[:capacity]\<close>, consumed in order.\<close>

fun start_all :: "world \<Rightarrow> bool \<Rightarrow> invocation list \<Rightarrow> sys \<Rightarrow> error + process list \<times> sys" where
  "start_all w verbose [] s = Inr ([], s)"
| "start_all w verbose (invocation # rest) s =
     (case Invocation_start w verbose invocation s of
        Inl e \<Rightarrow> Inl e
      | Inr (p, s1) \<Rightarrow>
          (case start_all w verbose rest s1 of
             Inl e \<Rightarrow> Inl e
           | Inr (ps, s2) \<Rightarrow> Inr (p # ps, s2)))"

text \<open>
  The state of the \<open>while\<close> loop: the remaining \<open>invocations\<close>, the \<open>pending\<close> handles,
  the \<open>exit_code\<close> and the effects so far. \<open>loop_body\<close> is one iteration: the polls of
  the list comprehension change the handles held by \<open>pending\<close>; then the drain, the
  refill and the sleep.
\<close>

type_synonym loop_state = "invocation list \<times> process list \<times> int \<times> sys"

definition loop_body :: "world \<Rightarrow> bool \<Rightarrow> int \<Rightarrow> loop_state \<Rightarrow> (error + loop_state) option" where
  "loop_body w verbose jobs st =
     (case st of (invocations, pending, exit_code, s) \<Rightarrow>
        (let polled = map Process_poll pending;
             pending1 = map snd polled;
             complete = map snd (filter (\<lambda>(r, p). r \<noteq> None) polled)
         in case drain complete pending1 exit_code s of
              None \<Rightarrow> None
            | Some (Inl e) \<Rightarrow> Some (Inl e)
            | Some (Inr (pending2, exit_code2, s1)) \<Rightarrow>
                (let capacity = jobs - int (length pending2)
                 in case start_all w verbose (slice_to invocations capacity) s1 of
                      Inl e \<Rightarrow> Some (Inl e)
                    | Inr (started, s2) \<Rightarrow>
                        Some (Inr (slice_from invocations capacity, pending2 @ started,
                                   exit_code2, sleep s2)))))"

definition loop_done :: "loop_state \<Rightarrow> bool" where
  "loop_done st = (fst st = [] \<and> fst (snd st) = [])"

partial_function (option) execute_loop ::
  "world \<Rightarrow> bool \<Rightarrow> int \<Rightarrow> loop_state \<Rightarrow> (error + int \<times> sys) option" where
  "execute_loop w verbose jobs st =
     (if loop_done st then Some (Inr (fst (snd (snd st)), snd (snd (snd st))))
      else (case loop_body w verbose jobs st of
              None \<Rightarrow> None
            | Some (Inl e) \<Rightarrow> Some (Inl e)
            | Some (Inr st') \<Rightarrow> execute_loop w verbose jobs st'))"

declare execute_loop.simps [code]

text \<open>
  \<open>execute\<close>. The block that would use \<open>max_load_average\<close> is commented out in the
  source, so the parameter is read nowhere; it may hold any value.
\<close>

definition execute ::
  "world \<Rightarrow> invocation list \<Rightarrow> bool \<Rightarrow> int \<Rightarrow> 'l \<Rightarrow> sys \<Rightarrow> (error + int \<times> sys) option" where
  "execute w invocations verbose jobs max_load_average s =
     (if jobs = 1 then execute_sequential w verbose invocations 0 s
      else execute_loop w verbose jobs (invocations, [], 0, s))"

text \<open>
  The state at the head of the loop after \<open>n\<close> further iterations, when the loop runs
  that long.
\<close>

fun after_iterations ::
  "world \<Rightarrow> bool \<Rightarrow> int \<Rightarrow> nat \<Rightarrow> loop_state \<Rightarrow> loop_state option" where
  "after_iterations w verbose jobs 0 st = Some st"
| "after_iterations w verbose jobs (Suc n) st =
     (if loop_done st then None
      else (case loop_body w verbose jobs st of
              Some (Inr st') \<Rightarrow> after_iterations w verbose jobs n st'
            | _ \<Rightarrow> None))"

section \<open>The entry point\<close>

text \<open>
  \<open>os.walk(source_path)\<close> is given by the file system: the list of its
  \<open>(root, dirs, files)\<close> triples. \<open>os.path.join\<close> is the POSIX one.
  \<open>tidy_executable\<close> is a \<open>str\<close> (\<open>type=str\<close> in the argument parser), and
  \<open>not tidy_executable\<close> holds for the empty one.
\<close>

type_synonym walk = "(pystr \<times> pystr list \<times> pystr list) list"

definition path_join :: "pystr \<Rightarrow> pystr \<Rightarrow> pystr" where
  "path_join a b =
     (if take 1 b = py_str ''/'' then b
      else if a = [] \<or> endswith a (py_str ''/'') then a @ b
      else a @ py_str ''/'' @ b)"

definition is_source :: "pystr \<Rightarrow> bool" where
  "is_source file =
     (endswith file (py_str ''.c'') \<or> endswith file (py_str ''.cc'')
      \<or> endswith file (py_str ''.cpp''))"

definition scan :: "walk \<Rightarrow> pystr list" where
  "scan tree =
     concat (map (\<lambda>(root, dirs, files). map (path_join root) (filter is_source files)) tree)"

definition main ::
  "world \<Rightarrow> (pystr \<Rightarrow> walk) \<Rightarrow> pystr \<Rightarrow> pystr \<Rightarrow> bool \<Rightarrow> int \<Rightarrow> 'l \<Rightarrow> pystr list \<Rightarrow> sys
     \<Rightarrow> (error + int \<times> sys) option" where
  "main w os_walk source_path tidy_executable verbose jobs max_load_average extra_args s =
     (if tidy_executable = [] then
        Some (Inr (1, s\<lparr>stderr := stderr s
                          @ [py_str ''error: clang-tidy executable not found'']\<rparr>))
      else
        (let scan_files = scan (os_walk source_path);
             invocations = map (get_command tidy_executable) scan_files
         in execute w invocations verbose jobs max_load_average s))"

section \<open>Vocabulary of the statements\<close>








text \<open>Two calls of \<open>get_output()\<close> on one handle, as a caller makes them.\<close>

definition get_output_twice :: "process \<Rightarrow> (error + pystr \<times> pystr \<times> process) option" where
  "get_output_twice p =
     (case get_output p of
        None \<Rightarrow> None
      | Some (Inl e) \<Rightarrow> Some (Inl e)
      | Some (Inr (first, p1)) \<Rightarrow>
          (case get_output p1 of
             None \<Rightarrow> None
           | Some (Inl e) \<Rightarrow> Some (Inl e)
           | Some (Inr (second, p2)) \<Rightarrow> Some (Inr (first, second, p2))))"

section \<open>Example inputs\<close>

text \<open>
  \<open>world_ab\<close>: the tool prints \<open>a\<close> and exits 0 on \<open>a.c\<close>, after two polls that find it
  running; it prints \<open>b\<close> and exits 2 on \<open>b.cpp\<close> at once. \<open>world_quiet\<close>: every
  command succeeds at once and writes nothing; \<open>quiet_handle\<close> is the handle
  \<open>Process.start\<close> returns there.
\<close>

definition sys0 :: sys where
  "sys0 = \<lparr>stdout = [], stderr = [], launched = [], sleeps = 0\<rparr>"

definition world_ab :: world where
  "world_ab n cmd =
     (if cmd = [py_str ''tidy'', py_str ''a.c''] then
        Runs \<lparr>out_bytes = [0x61], exit_status = 0, delay = Some 2\<rparr>
      else if cmd = [py_str ''tidy'', py_str ''b.cpp''] then
        Runs \<lparr>out_bytes = [0x62], exit_status = 2, delay = Some 0\<rparr>
      else Fails)"

definition invs_ab :: "invocation list" where
  "invs_ab = [get_command (py_str ''tidy'') (py_str ''a.c''),
              get_command (py_str ''tidy'') (py_str ''b.cpp'')]"

definition world_quiet :: world where
  "world_quiet n cmd = Runs \<lparr>out_bytes = [], exit_status = 0, delay = Some 0\<rparr>"

definition quiet_handle :: process where
  "quiet_handle =
     \<lparr>pid = 0, proc = \<lparr>returncode = Some 0, status = 0, remaining = Some 0\<rparr>,
      outfile = \<lparr>tf_data = [], tf_pos = 0, tf_closed = False\<rparr>, output = None\<rparr>"

text \<open>
  The loop state after the first iteration on \<open>invs_ab\<close> in \<open>world_ab\<close> with two jobs:
  both children launched, the second one already seen terminated by the poll of
  \<open>Process.start\<close>.
\<close>

definition pending_ab :: "process list" where
  "pending_ab =
     [\<lparr>pid = 0, proc = \<lparr>returncode = None, status = 0, remaining = Some 1\<rparr>,
       outfile = \<lparr>tf_data = [0x61], tf_pos = 1, tf_closed = False\<rparr>, output = None\<rparr>,
      \<lparr>pid = 1, proc = \<lparr>returncode = Some 2, status = 2, remaining = Some 0\<rparr>,
       outfile = \<lparr>tf_data = [0x62], tf_pos = 1, tf_closed = False\<rparr>, output = None\<rparr>]"

definition sys_ab :: sys where
  "sys_ab = \<lparr>stdout = [], stderr = [], launched = map command invs_ab, sleeps = 1\<rparr>"

section \<open>Properties of the exit-code merge\<close>

lemma worst_exit_code_commute: "worst_exit_code a b = worst_exit_code b a"
  by (simp add: worst_exit_code_def py_min_def py_max_def)

lemma worst_exit_code_assoc:
  "worst_exit_code (worst_exit_code a b) c = worst_exit_code a (worst_exit_code b c)"
  by (simp add: worst_exit_code_def py_min_def py_max_def)

lemma worst_exit_code_right_commute:
  "worst_exit_code (worst_exit_code a x) y = worst_exit_code (worst_exit_code a y) x"
proof -
  have "worst_exit_code (worst_exit_code a x) y = worst_exit_code a (worst_exit_code x y)"
    by (rule worst_exit_code_assoc)
  also have "\<dots> = worst_exit_code a (worst_exit_code y x)"
    by (simp only: worst_exit_code_commute [of x y])
  also have "\<dots> = worst_exit_code (worst_exit_code a y) x"
    by (rule worst_exit_code_assoc [symmetric])
  finally show ?thesis .
qed

lemma foldl_worst_exit_code_mset:
  assumes "mset xs = mset ys"
  shows "foldl worst_exit_code a xs = foldl worst_exit_code a ys"
proof -
  have "fold (\<lambda>x acc. worst_exit_code acc x) xs = fold (\<lambda>x acc. worst_exit_code acc x) ys"
    by (rule fold_multiset_equiv [OF _ assms])
       (simp add: fun_eq_iff worst_exit_code_right_commute)
  then show ?thesis
    by (simp add: foldl_conv_fold)
qed

text \<open>
  C1. For all integers \<open>worst\<close> and \<open>cur\<close>: a negative \<open>cur\<close> gives the minimum of the
  two; a non-negative \<open>cur\<close> with a negative \<open>worst\<close> gives \<open>worst\<close>; two non-negative
  codes give their maximum.
\<close>

theorem worst_exit_code_cases:
  "(cur < 0 \<longrightarrow> worst_exit_code worst cur = min worst cur) \<and>
   (0 \<le> cur \<and> worst < 0 \<longrightarrow> worst_exit_code worst cur = worst) \<and>
   (0 \<le> cur \<and> 0 \<le> worst \<longrightarrow> worst_exit_code worst cur = max worst cur)"
  by (simp add: worst_exit_code_def py_min_def py_max_def)

theorem worst_exit_code_cases_witness:
  "(-11 :: int) < 0 \<and> worst_exit_code 2 (-11) = -11 \<and> worst_exit_code (-3) (-11) = -11 \<and>
   (0 :: int) \<le> 2 \<and> (-11 :: int) < 0 \<and> worst_exit_code (-11) 2 = -11 \<and>
   (0 :: int) \<le> 0 \<and> worst_exit_code 2 0 = 2 \<and> worst_exit_code 0 2 = 2"
  using worst_exit_code_cases [of "-11" 2] worst_exit_code_cases [of "-11" "-3"]
    worst_exit_code_cases [of 2 "-11"] worst_exit_code_cases [of 0 2]
    worst_exit_code_cases [of 2 0]
  by simp

text \<open>
  C2. \<open>worst_exit_code\<close> is commutative and associative, and the left fold of
  \<open>worst_exit_code\<close> from \<open>0\<close> over a list of exit statuses is the same for every
  permutation of the list.
\<close>

theorem worst_exit_code_fold_order_independent:
  "(\<forall>a b. worst_exit_code a b = worst_exit_code b a) \<and>
   (\<forall>a b c. worst_exit_code (worst_exit_code a b) c = worst_exit_code a (worst_exit_code b c)) \<and>
   (\<forall>xs ys. mset xs = mset ys \<longrightarrow> foldl worst_exit_code 0 xs = foldl worst_exit_code 0 ys)"
  using worst_exit_code_commute worst_exit_code_assoc foldl_worst_exit_code_mset
  by blast

theorem worst_exit_code_fold_order_independent_witness:
  "mset [0, -1, 2 :: int] = mset [2, 0, -1] \<and>
   foldl worst_exit_code 0 [0, -1, 2] = foldl worst_exit_code 0 [2, 0, -1] \<and>
   foldl worst_exit_code 0 [2, 0, -1] = -1"
proof -
  have p: "mset [0, -1, 2 :: int] = mset [2, 0, -1]"
    by simp
  have e: "foldl worst_exit_code 0 [2, 0, -1] = -1"
    by (simp add: worst_exit_code_def py_min_def py_max_def)
  from worst_exit_code_fold_order_independent p
  have "foldl worst_exit_code 0 [0, -1, 2] = foldl worst_exit_code 0 [2, 0, -1]"
    by blast
  with p e show ?thesis
    by simp
qed

section \<open>The cached output of a handle\<close>

lemma quiet_handle_started:
  "Process_start world_quiet (get_command (py_str ''true'') (py_str ''a.c'')) sys0
     = Inr (quiet_handle, sys0\<lparr>launched := [[py_str ''true'', py_str ''a.c'']]\<rparr>)"
  by (simp add: Process_start_def world_quiet_def quiet_handle_def sys0_def get_command_def
      Popen_poll_def)

lemma Popen_wait_returncode:
  "Popen_wait q = Some q' \<Longrightarrow> returncode q' \<noteq> None \<and> Popen_wait q' = Some q'"
  by (auto simp: Popen_wait_def split: option.splits)

text \<open>A text that is not empty is cached: the next call returns it and leaves the handle alone.\<close>

lemma get_output_cached_nonempty:
  assumes "get_output p = Some (Inr (txt, p1))" and "txt \<noteq> []"
  shows "get_output p1 = Some (Inr (txt, p1))"
  using assms
  by (auto simp: get_output_def
      split: option.splits list.splits sum.splits prod.splits)

text \<open>
  C3. The output of a handle is computed once and cached, also when it is the empty
  string: a second \<open>get_output()\<close> returns the same text. The code does not do this for
  the empty string. On the handle of a child that wrote nothing, the second call raises
  \<open>ValueError\<close>.
\<close>

theorem get_output_twice_empty_raises:
  "get_output_twice quiet_handle = Some (Inl ValueError)"
  by (simp add: get_output_twice_def get_output_def quiet_handle_def
      Popen_wait_def tf_seek_def tf_read_def tf_close_def)

text \<open>
  C10. On a handle whose child wrote nothing, the first \<open>get_output()\<close> returns the empty
  string, caches it and closes the file; the second call finds the cached value falsy,
  waits and seeks again, and the seek on the closed file raises \<open>ValueError\<close>.
\<close>

theorem get_output_empty_not_cached:
  assumes "output p = None" and "\<not> tf_closed (outfile p)" and "tf_data (outfile p) = []"
    and "Popen_wait (proc p) \<noteq> None"
  shows "\<exists>p1. get_output p = Some (Inr ([], p1)) \<and> output p1 = Some [] \<and> tf_closed (outfile p1)
            \<and> get_output p1 = Some (Inl ValueError)"
proof -
  from assms(4) obtain q where q: "Popen_wait (proc p) = Some q"
    by auto
  define p1 where
    "p1 = p\<lparr>proc := q, outfile := tf_close ((outfile p)\<lparr>tf_pos := 0\<rparr>), output := Some []\<rparr>"
  have first: "get_output p = Some (Inr ([], p1))"
    using assms(1-3) q
    by (simp add: get_output_def tf_seek_def tf_read_def p1_def tf_close_def)
  have again: "Popen_wait (proc p1) = Some q"
    using Popen_wait_returncode [OF q] by (simp add: p1_def)
  have second: "get_output p1 = Some (Inl ValueError)"
    using again
    by (simp add: get_output_def tf_seek_def p1_def tf_close_def)
  from first second show ?thesis
    by (simp add: p1_def tf_close_def)
qed

theorem get_output_empty_not_cached_witness:
  "output quiet_handle = None \<and> \<not> tf_closed (outfile quiet_handle)
   \<and> tf_data (outfile quiet_handle) = [] \<and> Popen_wait (proc quiet_handle) \<noteq> None
   \<and> (\<exists>p1. get_output quiet_handle = Some (Inr ([], p1)) \<and> output p1 = Some []
          \<and> tf_closed (outfile p1) \<and> get_output p1 = Some (Inl ValueError))"
proof -
  have h: "output quiet_handle = None" "\<not> tf_closed (outfile quiet_handle)"
    "tf_data (outfile quiet_handle) = []" "Popen_wait (proc quiet_handle) \<noteq> None"
    by (simp_all add: quiet_handle_def Popen_wait_def)
  from get_output_empty_not_cached [OF h] h show ?thesis
    by simp
qed

section \<open>The entry point and the unused parameter\<close>

text \<open>
  C7. With no tool path, \<open>main\<close> writes the message to the diagnostic stream and returns
  1; nothing is launched, nothing is printed on the standard output, and the loop never
  sleeps.
\<close>

theorem main_without_tool:
  "\<exists>s'. main w os_walk source_path [] verbose jobs max_load_average extra_args s
            = Some (Inr (1, s'))
        \<and> stderr s' = stderr s @ [py_str ''error: clang-tidy executable not found'']
        \<and> launched s' = launched s \<and> stdout s' = stdout s \<and> sleeps s' = sleeps s"
  by (simp add: main_def)

text \<open>
  C9. Two runs of \<open>execute\<close> that differ only in \<open>max_load_average\<close> have the same
  result: the same exit code and the same effects, or the same error, or neither returns.
\<close>

theorem execute_ignores_max_load_average:
  "execute w invocations verbose jobs l1 s = execute w invocations verbose jobs l2 s"
  by (simp add: execute_def)

section \<open>Effects of one iteration\<close>

lemma drain_effects:
  "drain complete pending exit_code s = Some (Inr (pending', exit_code', s')) \<Longrightarrow>
     sleeps s' = sleeps s \<and> launched s' = launched s \<and> stderr s' = stderr s
     \<and> length pending' + length complete = length pending"
proof (induction complete arbitrary: pending exit_code s)
  case Nil
  then show ?case by simp
next
  case (Cons p complete)
  then show ?case
    by (auto simp: print_def length_remove1 dest: length_pos_if_in_set
        split: if_splits option.splits sum.splits prod.splits)
qed

lemma Invocation_start_effects:
  "Invocation_start w verbose i s = Inr (p, s') \<Longrightarrow>
     sleeps s' = sleeps s \<and> stdout s' = stdout s \<and> launched s' = launched s @ [command i]"
  by (auto simp: Invocation_start_def Process_start_def Let_def split: launch.splits if_splits)

lemma start_all_effects:
  "start_all w verbose invs s = Inr (ps, s') \<Longrightarrow>
     sleeps s' = sleeps s \<and> stdout s' = stdout s \<and> launched s' = launched s @ map command invs
     \<and> length ps = length invs"
proof (induction invs arbitrary: s ps)
  case Nil
  then show ?case by simp
next
  case (Cons i invs)
  then show ?case
    by (fastforce dest!: Invocation_start_effects split: sum.splits prod.splits)
qed

text \<open>
  C8. The sleep is taken only in an iteration in which neither the drain nor the refill
  made progress. The code sleeps in every iteration: the first iteration on \<open>invs_ab\<close>
  launches both children and sleeps.
\<close>

theorem yield_taken_with_progress:
  "loop_body world_ab False 2 (invs_ab, [], 0, sys0) = Some (Inr ([], pending_ab, 0, sys_ab))
   \<and> sleeps sys_ab = Suc (sleeps sys0) \<and> launched sys_ab \<noteq> launched sys0"
  by code_simp

text \<open>
  C8, as the code has it: every iteration of the loop that completes sleeps exactly once,
  whatever the drain and the refill did.
\<close>

theorem loop_body_always_sleeps:
  assumes "loop_body w verbose jobs (invocations, pending, exit_code, s)
             = Some (Inr (invocations', pending', exit_code', s'))"
  shows "sleeps s' = Suc (sleeps s)"
  using assms
  by (auto simp: loop_body_def Let_def sleep_def split: option.splits sum.splits prod.splits
      dest!: drain_effects start_all_effects)

theorem loop_body_always_sleeps_witness:
  "loop_body world_ab False 2 ([], pending_ab, 0, sys_ab)
     = Some (Inr ([], [hd pending_ab\<lparr>proc := (proc (hd pending_ab))\<lparr>remaining := Some 0\<rparr>\<rparr>], 2,
                  sys_ab\<lparr>stdout := [py_str ''b''], sleeps := 2\<rparr>))
   \<and> sleeps (sys_ab\<lparr>stdout := [py_str ''b''], sleeps := 2\<rparr>) = Suc (sleeps sys_ab)"
proof -
  have run: "loop_body world_ab False 2 ([], pending_ab, 0, sys_ab)
     = Some (Inr ([], [hd pending_ab\<lparr>proc := (proc (hd pending_ab))\<lparr>remaining := Some 0\<rparr>\<rparr>], 2,
                  sys_ab\<lparr>stdout := [py_str ''b''], sleeps := 2\<rparr>))"
    by code_simp
  from loop_body_always_sleeps [OF run] run show ?thesis
    by simp
qed

section \<open>Handles that are polled, drained and started\<close>








section \<open>The bound on the pending list\<close>

lemma slice_to_take: "0 \<le> n \<Longrightarrow> slice_to xs n = take (nat n) xs"
  by (simp add: slice_to_def)


lemma loop_body_bound:
  assumes "int (length pending) \<le> jobs"
    and "loop_body w verbose jobs (invocations, pending, exit_code, s)
           = Some (Inr (invocations', pending', exit_code', s'))"
  shows "int (length pending') \<le> jobs"
proof -
  from assms(2) obtain pending2 exit_code2 s1 started s2 where
    dr: "drain (map snd (filter (\<lambda>(r, p). r \<noteq> None) (map Process_poll pending)))
           (map snd (map Process_poll pending)) exit_code s = Some (Inr (pending2, exit_code2, s1))"
    and st: "start_all w verbose (slice_to invocations (jobs - int (length pending2))) s1
           = Inr (started, s2)"
    and p': "pending' = pending2 @ started"
    by (auto simp: loop_body_def Let_def split: option.splits sum.splits prod.splits)
  from drain_effects [OF dr] have "length pending2 \<le> length pending"
    by simp
  with assms(1) have cap: "0 \<le> jobs - int (length pending2)"
    by simp
  from start_all_effects [OF st] have "length started = length (slice_to invocations (jobs - int (length pending2)))"
    by simp
  with cap have "length started \<le> nat (jobs - int (length pending2))"
    by (simp add: slice_to_take)
  with cap p' show ?thesis
    by simp
qed

lemma after_iterations_bound:
  "int (length (fst (snd st))) \<le> jobs \<Longrightarrow> after_iterations w verbose jobs n st = Some st'
     \<Longrightarrow> int (length (fst (snd st'))) \<le> jobs"
proof (induction n arbitrary: st)
  case 0
  then show ?case by simp
next
  case (Suc n)
  from Suc.prems(2) obtain st1 where
    b: "loop_body w verbose jobs st = Some (Inr st1)"
    and r: "after_iterations w verbose jobs n st1 = Some st'"
    by (auto split: if_splits option.splits sum.splits)
  obtain i p e s where st: "st = (i, p, e, s)"
    by (cases st) auto
  obtain i1 p1 e1 s1 where st1: "st1 = (i1, p1, e1, s1)"
    by (cases st1) auto
  from loop_body_bound [of p jobs w verbose i e s i1 p1 e1 s1] Suc.prems(1) b st st1
  have "int (length (fst (snd st1))) \<le> jobs"
    by simp
  from Suc.IH [OF this r] show ?case .
qed

lemma after_iterations_execute_loop:
  "after_iterations w verbose jobs n st = Some st' \<Longrightarrow>
     execute_loop w verbose jobs st = execute_loop w verbose jobs st'"
proof (induction n arbitrary: st)
  case 0
  then show ?case by simp
next
  case (Suc n)
  from Suc.prems obtain st1 where nd: "\<not> loop_done st"
    and b: "loop_body w verbose jobs st = Some (Inr st1)"
    and r: "after_iterations w verbose jobs n st1 = Some st'"
    by (auto split: if_splits option.splits sum.splits)
  have "execute_loop w verbose jobs st = execute_loop w verbose jobs st1"
    using nd b by (subst execute_loop.simps) simp
  with Suc.IH [OF r] show ?case
    by simp
qed

text \<open>
  C6. With \<open>jobs \<ge> 1\<close>, at the head of the loop after any number of iterations the
  pending list holds at most \<open>jobs\<close> handles. Inside an iteration the list only shrinks
  during the drain and only grows during the refill, up to its length at the end of the
  iteration, so the bound holds throughout.
\<close>

theorem pending_never_exceeds_jobs:
  assumes "1 \<le> jobs"
    and "after_iterations w verbose jobs n (invocations, [], 0, s)
           = Some (invocations', pending', exit_code', s')"
  shows "int (length pending') \<le> jobs"
  using after_iterations_bound [OF _ assms(2)] assms(1)
  by simp

theorem pending_never_exceeds_jobs_witness:
  "(1 :: int) \<le> 2
   \<and> after_iterations world_ab False 2 1 (invs_ab, [], 0, sys0) = Some ([], pending_ab, 0, sys_ab)
   \<and> int (length pending_ab) \<le> 2"
proof -
  have j: "(1 :: int) \<le> 2"
    by simp
  have run: "after_iterations world_ab False 2 1 (invs_ab, [], 0, sys0)
               = Some ([], pending_ab, 0, sys_ab)"
    by code_simp
  from pending_never_exceeds_jobs [OF j run] j run show ?thesis
    by simp
qed

section \<open>Every invocation is started and printed once\<close>












section \<open>Runs that return\<close>











section \<open>The two regimes of execute\<close>





end
